theory Spec2Isabelle
  imports Main "HOL-Library.Finite_Map" "HOL-Library.List_Lexorder" "HOL-Library.Char_ord"
begin

section \<open>The alertmanager-stomp-forwarder: data model\<close>

text \<open>
  The program is one Go file, \<^verbatim>\<open>main.go\<close>. Its core is the handler of
  \<^verbatim>\<open>POST /alerts/:topic\<close> (\<^verbatim>\<open>alertPOSTHandler\<close>), which decodes the request body
  (\<^verbatim>\<open>unmarshalAlerts\<close>) and publishes every alert of the batch to a STOMP broker
  (\<^verbatim>\<open>sendAlertToStomp\<close>). The embedding below follows these three functions statement
  by statement. What they call outside the repository (the logger, the STOMP client, the
  metrics registry, the response writer, the JSON decoder) is modelled by its effect on an
  explicit state, or taken as a parameter.
\<close>

datatype error = Error string

text \<open>
  A JSON document. A Go value of type \<^verbatim>\<open>interface{}\<close> that came out of the decoder
  (nil, bool, float64, string, slice, map) is represented by the document that
  \<^verbatim>\<open>json.Marshal\<close> writes for it; a number is kept as its literal.
\<close>

datatype json =
    JNull
  | JBool bool
  | JNumber string
  | JString string
  | JArray "json list"
  | JObject "(string \<times> json) list"

text \<open>
  The two structs of the source. A Go map is a finite map, and \<open>None\<close> is the nil map
  (the zero value of the field, which the encoder writes as \<^verbatim>\<open>null\<close>).
\<close>

record Alert =
  Annotations :: "(string, json) fmap option"
  EndsAt :: string
  GeneratorURL :: string
  Labels :: "(string, string) fmap option"
  StartsAt :: string

record Alerts =
  Alerts :: "Alert list"
  CommonAnnotations :: "(string, json) fmap option"
  CommonLabels :: "(string, json) fmap option"
  ExternalURL :: string
  GroupLabels :: "(string, json) fmap option"
  Receiver :: string
  Status :: string

definition zero_Alerts :: Alerts where
  "zero_Alerts =
     \<lparr>Alerts = [], CommonAnnotations = None, CommonLabels = None, ExternalURL = [],
      GroupLabels = None, Receiver = [], Status = []\<rparr>"

text \<open>The command-line flags the publisher reads.\<close>

record config =
  stompAddr :: string
  stompUser :: string
  stompPass :: string

section \<open>The world outside the program\<close>

subsection \<open>Control: return, process exit, panic\<close>

text \<open>
  A Go call either returns, or ends the process (\<^verbatim>\<open>os.Exit\<close>), or panics. A statement
  is a function from the state to an outcome and the state it leaves.
\<close>

datatype 'a outcome = Return 'a | Exit int | Panic string

datatype Level = FatalLevel | InfoLevel

text \<open>
  The calls made to the STOMP client library, in the order they are made. A connection is
  named by the number of the dial that opened it; \<open>None\<close> is the nil connection.
\<close>

datatype call =
    Dial string string string string
  | Send "nat option" string string json
  | Disconnect "nat option"

record state =
  httpDuration :: nat
  httpCounter :: "string \<Rightarrow> nat"
  amqRequests :: "string \<Rightarrow> nat"
  status :: "int option"
  conns :: nat
  stomp_calls :: "call list"
  log_entries :: "(Level \<times> string) list"

type_synonym 'a prog = "state \<Rightarrow> 'a outcome \<times> state"

definition ret :: "'a \<Rightarrow> 'a prog" where
  "ret x st = (Return x, st)"

text \<open>Sequential composition: what follows a statement runs only if the statement returns.\<close>

definition andThen :: "'a prog \<Rightarrow> ('a \<Rightarrow> 'b prog) \<Rightarrow> 'b prog" where
  "andThen m f st =
     (case m st of
        (Return x, st') \<Rightarrow> f x st'
      | (Exit c, st') \<Rightarrow> (Exit c, st')
      | (Panic p, st') \<Rightarrow> (Panic p, st'))"

subsection \<open>The logger (logrus)\<close>

text \<open>
  \<^verbatim>\<open>Logger.Fatalf\<close> of logrus writes the entry at the fatal level and then calls
  \<^verbatim>\<open>logger.Exit(1)\<close>, which calls the logger's \<^verbatim>\<open>ExitFunc\<close>. A logger made by
  \<^verbatim>\<open>logrus.New()\<close> has \<^verbatim>\<open>ExitFunc = os.Exit\<close>, which does not return; the program never
  replaces it. The other value stands for a replaced hook that returns to the caller.
\<close>

datatype exit_func = os_Exit | exit_returns

record Logger =
  ExitFunc :: exit_func

definition logrus_New :: Logger where
  "logrus_New = \<lparr>ExitFunc = os_Exit\<rparr>"

definition log :: Logger where
  "log = logrus_New"

definition Logf :: "Level \<Rightarrow> string \<Rightarrow> unit prog" where
  "Logf lvl msg st = (Return (), st\<lparr>log_entries := log_entries st @ [(lvl, msg)]\<rparr>)"

definition Logger_Exit :: "Logger \<Rightarrow> int \<Rightarrow> unit prog" where
  "Logger_Exit lg code st =
     (case ExitFunc lg of os_Exit \<Rightarrow> (Exit code, st) | exit_returns \<Rightarrow> (Return (), st))"

definition Infof :: "Logger \<Rightarrow> string \<Rightarrow> unit prog" where
  "Infof lg msg = Logf InfoLevel msg"

definition Fatalf :: "Logger \<Rightarrow> string \<Rightarrow> unit prog" where
  "Fatalf lg msg = andThen (Logf FatalLevel msg) (\<lambda>_. Logger_Exit lg 1)"

subsection \<open>Metrics and the response writer\<close>

definition ObserveDuration :: "unit prog" where
  "ObserveDuration st = (Return (), st\<lparr>httpDuration := httpDuration st + 1\<rparr>)"

definition httpCounter_Inc :: "string \<Rightarrow> unit prog" where
  "httpCounter_Inc l st = (Return (), st\<lparr>httpCounter := (httpCounter st)(l := httpCounter st l + 1)\<rparr>)"

definition amqRequests_Inc :: "string \<Rightarrow> unit prog" where
  "amqRequests_Inc l st = (Return (), st\<lparr>amqRequests := (amqRequests st)(l := amqRequests st l + 1)\<rparr>)"

definition WriteHeader :: "int \<Rightarrow> unit prog" where
  "WriteHeader code st = (Return (), st\<lparr>status := Some code\<rparr>)"

definition http_StatusOK :: int where
  "http_StatusOK = 200"

definition http_StatusInternalServerError :: int where
  "http_StatusInternalServerError = 500"

fun digits :: "nat \<Rightarrow> string" where
  "digits n =
     (if n < 10 then [char_of (48 + n)]
      else digits (n div 10) @ [char_of (48 + n mod 10)])"

declare digits.simps [simp del]

definition strconv_Itoa :: "int \<Rightarrow> string" where
  "strconv_Itoa i = (if i < 0 then CHR ''-'' # digits (nat (- i)) else digits (nat i))"

subsection \<open>The STOMP client\<close>

text \<open>
  The broker is a parameter: for the \<open>k\<close>-th connection attempt of the process it says
  whether the dial (connection and login), the send and the disconnect fail, and with
  which error.
\<close>

record conn_behaviour =
  dial_err :: "error option"
  send_err :: "error option"
  disconnect_err :: "error option"

type_synonym broker = "nat \<Rightarrow> conn_behaviour"

definition nil_dereference :: string where
  "nil_dereference = ''runtime error: invalid memory address or nil pointer dereference''"

text \<open>\<^verbatim>\<open>stomp.Dial\<close> returns the connection and a nil error, or a nil connection and the error.\<close>

definition stomp_Dial ::
  "broker \<Rightarrow> string \<Rightarrow> string \<Rightarrow> string \<Rightarrow> string \<Rightarrow> (nat option \<times> error option) prog" where
  "stomp_Dial br network addr user pass st =
     (let k = conns st;
          st' = st\<lparr>conns := k + 1, stomp_calls := stomp_calls st @ [Dial network addr user pass]\<rparr>
      in case dial_err (br k) of
           Some e \<Rightarrow> (Return (None, Some e), st')
         | None \<Rightarrow> (Return (Some k, None), st'))"

text \<open>A method of \<^verbatim>\<open>*stomp.Conn\<close> reads the connection's fields first: on nil it panics.\<close>

definition Conn_Send ::
  "broker \<Rightarrow> nat option \<Rightarrow> string \<Rightarrow> string \<Rightarrow> json \<Rightarrow> (error option) prog" where
  "Conn_Send br c destination contentType body st =
     (let st' = st\<lparr>stomp_calls := stomp_calls st @ [Send c destination contentType body]\<rparr>
      in case c of
           None \<Rightarrow> (Panic nil_dereference, st')
         | Some k \<Rightarrow> (Return (send_err (br k)), st'))"

definition Conn_Disconnect :: "broker \<Rightarrow> nat option \<Rightarrow> (error option) prog" where
  "Conn_Disconnect br c st =
     (let st' = st\<lparr>stomp_calls := stomp_calls st @ [Disconnect c]\<rparr>
      in case c of
           None \<Rightarrow> (Panic nil_dereference, st')
         | Some k \<Rightarrow> (Return (disconnect_err (br k)), st'))"

subsection \<open>The JSON encoder and decoder\<close>

text \<open>
  \<^verbatim>\<open>json.Marshal\<close> on an \<^verbatim>\<open>Alert\<close>: an object with one member per field, named by the
  field's tag, in the order of the struct; a map is written as an object with its keys
  sorted, a nil map as \<^verbatim>\<open>null\<close>. Every value of the model can be encoded, so the error
  is nil.
\<close>

definition marshal_string_map :: "(string, string) fmap option \<Rightarrow> json" where
  "marshal_string_map m =
     (case m of
        None \<Rightarrow> JNull
      | Some f \<Rightarrow> JObject (map (\<lambda>(k, v). (k, JString v)) (sorted_list_of_fmap f)))"

definition marshal_any_map :: "(string, json) fmap option \<Rightarrow> json" where
  "marshal_any_map m =
     (case m of
        None \<Rightarrow> JNull
      | Some f \<Rightarrow> JObject (sorted_list_of_fmap f))"

definition json_Marshal :: "Alert \<Rightarrow> json \<times> error option" where
  "json_Marshal a =
     (JObject
        [(''annotations'', marshal_any_map (Annotations a)),
         (''endsAt'', JString (EndsAt a)),
         (''generatorURL'', JString (GeneratorURL a)),
         (''labels'', marshal_string_map (Labels a)),
         (''startsAt'', JString (StartsAt a))],
      None)"

text \<open>
  \<^verbatim>\<open>json.Unmarshal\<close> is a parameter: given the bytes and the struct it writes into, it
  returns the struct as it leaves it and the error, if any.
\<close>

type_synonym unmarshal = "string \<Rightarrow> Alerts \<Rightarrow> Alerts \<times> error option"

subsection \<open>The request\<close>

text \<open>
  The request context as the handler uses it: the path parameters, and the body as
  \<^verbatim>\<open>io.ReadAll\<close> reads it (the bytes read, and the read error if any).
\<close>

record request =
  Params :: "(string \<times> string) list"
  Body :: "string \<times> error option"

fun ByName :: "(string \<times> string) list \<Rightarrow> string \<Rightarrow> string" where
  "ByName [] name = []"
| "ByName ((key, v) # ps) name = (if key = name then v else ByName ps name)"

definition io_ReadAll :: "string \<times> error option \<Rightarrow> string \<times> error option" where
  "io_ReadAll body = body"

section \<open>The program\<close>

text \<open>\<^verbatim>\<open>unmarshalAlerts\<close> (main.go, lines 183 to 190).\<close>

definition unmarshalAlerts :: "unmarshal \<Rightarrow> string \<Rightarrow> Alerts \<times> error option" where
  "unmarshalAlerts json_Unmarshal requestBody =
     (let (alerts, err) = json_Unmarshal requestBody zero_Alerts
      in if err \<noteq> None then (alerts, err) else (alerts, None))"

text \<open>
  \<^verbatim>\<open>sendAlertToStomp\<close> (lines 194 to 217). The branch for a failed dial has no
  \<^verbatim>\<open>return\<close>: after \<^verbatim>\<open>log.Fatalf\<close> the text goes on to the send. The branches for a
  failed encoding and a failed send return the error after \<^verbatim>\<open>log.Fatalf\<close>, and the
  disconnect is the last statement of the successful path only.
\<close>

definition sendAlertToStomp ::
  "Logger \<Rightarrow> config \<Rightarrow> broker \<Rightarrow> string \<Rightarrow> Alert \<Rightarrow> (error option) prog" where
  "sendAlertToStomp lg cfg br topic alert =
     (case json_Marshal alert of
        (message, Some err) \<Rightarrow>
          andThen (Fatalf lg ''error while marshalling alert'') (\<lambda>_.
          ret (Some err))
      | (message, None) \<Rightarrow>
          andThen (Infof lg ''amq request {topic: %s, message: %s}'') (\<lambda>_.
          andThen (stomp_Dial br ''tcp'' (stompAddr cfg) (stompUser cfg) (stompPass cfg))
            (\<lambda>(stompConn, err).
          andThen (case err of
                     Some e \<Rightarrow> Fatalf lg ''error while connecting to stomp: %s''
                   | None \<Rightarrow> Infof lg ''connected to stomp endpoint'') (\<lambda>_.
          andThen (Conn_Send br stompConn topic ''application/json'' message) (\<lambda>err.
          (case err of
             Some e \<Rightarrow>
               andThen (Fatalf lg ''failed to send message to ActiveMQ broker: %v'') (\<lambda>_.
               ret (Some e))
           | None \<Rightarrow>
               andThen (Conn_Disconnect br stompConn) (\<lambda>_.
               ret None)))))))"

text \<open>
  The loop of \<^verbatim>\<open>alertPOSTHandler\<close> over \<^verbatim>\<open>alerts.Alerts\<close> (lines 166 to 174). The
  increment of \<^verbatim>\<open>ok\<close> is not in an \<^verbatim>\<open>else\<close>: it follows the error branch.
\<close>

fun range_Alerts :: "Logger \<Rightarrow> config \<Rightarrow> broker \<Rightarrow> string \<Rightarrow> Alert list \<Rightarrow> unit prog" where
  "range_Alerts lg cfg br topic [] = ret ()"
| "range_Alerts lg cfg br topic (alert # rest) =
     andThen (sendAlertToStomp lg cfg br topic alert) (\<lambda>err.
     andThen (case err of
                Some e \<Rightarrow>
                  andThen ObserveDuration (\<lambda>_.
                  andThen (amqRequests_Inc ''not_ok'') (\<lambda>_.
                  Fatalf lg ''request for alert %s not successful''))
              | None \<Rightarrow> ret ()) (\<lambda>_.
     andThen (amqRequests_Inc ''ok'') (\<lambda>_.
     range_Alerts lg cfg br topic rest)))"

text \<open>\<^verbatim>\<open>alertPOSTHandler\<close> (lines 139 to 180).\<close>

definition alertPOSTHandler ::
  "Logger \<Rightarrow> config \<Rightarrow> unmarshal \<Rightarrow> broker \<Rightarrow> request \<Rightarrow> unit prog" where
  "alertPOSTHandler lg cfg json_Unmarshal br requestContext =
     (let topic = ByName (Params requestContext) ''topic''
      in case io_ReadAll (Body requestContext) of
           (requestBody, Some err) \<Rightarrow>
             andThen ObserveDuration (\<lambda>_.
             andThen (httpCounter_Inc (strconv_Itoa http_StatusInternalServerError)) (\<lambda>_.
             andThen (WriteHeader http_StatusInternalServerError) (\<lambda>_.
             andThen (Fatalf lg ''the request body could not be extracted'') (\<lambda>_.
             ret ()))))
         | (requestBody, None) \<Rightarrow>
             (case unmarshalAlerts json_Unmarshal requestBody of
                (alerts, Some err) \<Rightarrow>
                  andThen ObserveDuration (\<lambda>_.
                  andThen (httpCounter_Inc (strconv_Itoa http_StatusInternalServerError)) (\<lambda>_.
                  andThen (WriteHeader http_StatusInternalServerError) (\<lambda>_.
                  andThen (Fatalf lg
                    ''the request body could not be unmarshalled to an alerts object. reuqest body: %s. err: %s'')
                    (\<lambda>_.
                  ret ()))))
              | (alerts, None) \<Rightarrow>
                  andThen (range_Alerts lg cfg br topic (Alerts alerts)) (\<lambda>_.
                  andThen ObserveDuration (\<lambda>_.
                  andThen (httpCounter_Inc (strconv_Itoa http_StatusOK)) (\<lambda>_.
                  WriteHeader http_StatusOK)))))"


section \<open>Observations on a run\<close>

text \<open>
  The publish on connection \<open>k\<close> succeeds when neither its dial nor its send fails
  (the result of the disconnect is discarded by the program).
\<close>

definition publish_ok :: "broker \<Rightarrow> nat \<Rightarrow> bool" where
  "publish_ok br k = (dial_err (br k) = None \<and> send_err (br k) = None)"

text \<open>How many of the connections \<open>k, k + 1, \<dots>, k + n - 1\<close> succeed before the first failure.\<close>

fun leading_ok :: "broker \<Rightarrow> nat \<Rightarrow> nat \<Rightarrow> nat" where
  "leading_ok br k 0 = 0"
| "leading_ok br k (Suc n) = (if publish_ok br k then Suc (leading_ok br (Suc k) n) else 0)"

definition dial_call :: "config \<Rightarrow> call" where
  "dial_call cfg = Dial ''tcp'' (stompAddr cfg) (stompUser cfg) (stompPass cfg)"

definition send_call :: "string \<Rightarrow> nat option \<Rightarrow> Alert \<Rightarrow> call" where
  "send_call topic c a = Send c topic ''application/json'' (fst (json_Marshal a))"

text \<open>The library calls of one successful publish, and of one that fails.\<close>

definition publish_calls :: "config \<Rightarrow> string \<Rightarrow> nat \<Rightarrow> Alert \<Rightarrow> call list" where
  "publish_calls cfg topic k a = [dial_call cfg, send_call topic (Some k) a, Disconnect (Some k)]"

definition failed_calls :: "config \<Rightarrow> broker \<Rightarrow> string \<Rightarrow> nat \<Rightarrow> Alert \<Rightarrow> call list" where
  "failed_calls cfg br topic k a =
     (if dial_err (br k) \<noteq> None then [dial_call cfg]
      else [dial_call cfg, send_call topic (Some k) a])"

fun expected_calls :: "config \<Rightarrow> broker \<Rightarrow> string \<Rightarrow> nat \<Rightarrow> Alert list \<Rightarrow> call list" where
  "expected_calls cfg br topic k [] = []"
| "expected_calls cfg br topic k (a # rest) =
     (if publish_ok br k
      then publish_calls cfg topic k a @ expected_calls cfg br topic (Suc k) rest
      else failed_calls cfg br topic k a)"

fun is_Dial :: "call \<Rightarrow> bool" where
  "is_Dial (Dial network addr user pass) = True"
| "is_Dial (Send c destination contentType body) = False"
| "is_Dial (Disconnect c) = False"

fun is_Disconnect :: "call \<Rightarrow> bool" where
  "is_Disconnect (Dial network addr user pass) = False"
| "is_Disconnect (Send c destination contentType body) = False"
| "is_Disconnect (Disconnect c) = True"

text \<open>
  Every call of \<^verbatim>\<open>sendAlertToStomp\<close> dials exactly once (the encoding before the dial
  cannot fail), so the publish attempts of a run are its dials.
\<close>

definition publish_attempts :: "call list \<Rightarrow> nat" where
  "publish_attempts cs = length (filter is_Dial cs)"

text \<open>The messages handed to the broker, in order: destination and body of every send.\<close>

fun sent :: "call list \<Rightarrow> (string \<times> json) list" where
  "sent [] = []"
| "sent (Dial network addr user pass # cs) = sent cs"
| "sent (Send c destination contentType body # cs) = (destination, body) # sent cs"
| "sent (Disconnect c # cs) = sent cs"

section \<open>Concrete inputs\<close>

definition default_config :: config where
  "default_config =
     \<lparr>stompAddr = ''localhost:61616'', stompUser = ''admin'', stompPass = ''admin''\<rparr>"

definition init_state :: state where
  "init_state =
     \<lparr>httpDuration = 0, httpCounter = (\<lambda>l. 0), amqRequests = (\<lambda>l. 0), status = None,
      conns = 0, stomp_calls = [], log_entries = []\<rparr>"

definition alert_Foo :: Alert where
  "alert_Foo =
     \<lparr>Annotations = None, EndsAt = [], GeneratorURL = [],
      Labels = Some (fmupd ''alertname'' ''Foo'' fmempty), StartsAt = ''2024-01-01T00:00:00Z''\<rparr>"

definition alert_Bar :: Alert where
  "alert_Bar =
     \<lparr>Annotations = None, EndsAt = [], GeneratorURL = [],
      Labels = Some (fmupd ''alertname'' ''Bar'' fmempty), StartsAt = ''2024-01-01T00:05:00Z''\<rparr>"

definition body_empty :: string where
  \<open>body_empty = ''{"alerts":[]}''\<close>

definition body_one :: string where
  \<open>body_one = ''{"alerts":[{"labels":{"alertname":"Foo"},"startsAt":"2024-01-01T00:00:00Z"}]}''\<close>

definition body_two :: string where
  \<open>body_two = ''{"alerts":[{"labels":{"alertname":"Foo"},"startsAt":"2024-01-01T00:00:00Z"},{"labels":{"alertname":"Bar"},"startsAt":"2024-01-01T00:05:00Z"}]}''\<close>

definition body_truncated :: string where
  \<open>body_truncated = ''{"alerts":[''\<close>

text \<open>
  A decoder that returns what \<^verbatim>\<open>json.Unmarshal\<close> returns on the four bodies above; it is
  used on these bodies only.
\<close>

definition example_Unmarshal :: unmarshal where
  "example_Unmarshal data v =
     (if data = body_empty then (v\<lparr>Alerts := []\<rparr>, None)
      else if data = body_one then (v\<lparr>Alerts := [alert_Foo]\<rparr>, None)
      else if data = body_two then (v\<lparr>Alerts := [alert_Foo, alert_Bar]\<rparr>, None)
      else (v, Some (Error ''unexpected end of JSON input'')))"



definition connection_accepted :: conn_behaviour where
  "connection_accepted = \<lparr>dial_err = None, send_err = None, disconnect_err = None\<rparr>"

definition connection_refused :: conn_behaviour where
  "connection_refused =
     \<lparr>dial_err = Some (Error ''dial tcp: connection refused''), send_err = None,
      disconnect_err = None\<rparr>"

definition connection_broken :: conn_behaviour where
  "connection_broken =
     \<lparr>dial_err = None, send_err = Some (Error ''write tcp: broken pipe''),
      disconnect_err = None\<rparr>"

definition broker_up :: broker where
  "broker_up k = connection_accepted"

definition broker_down :: broker where
  "broker_down k = connection_refused"

text \<open>A broker that refuses the connection number \<open>n\<close> and accepts every other one.\<close>

definition broker_refuses :: "nat \<Rightarrow> broker" where
  "broker_refuses n k = (if k = n then connection_refused else connection_accepted)"

text \<open>A broker that accepts every connection and fails the send on connection \<open>n\<close>.\<close>

definition broker_breaks :: "nat \<Rightarrow> broker" where
  "broker_breaks n k = (if k = n then connection_broken else connection_accepted)"

definition post :: "string \<Rightarrow> string \<Rightarrow> request" where
  "post topic data = \<lparr>Params = [(''topic'', topic)], Body = (data, None)\<rparr>"

section \<open>Lemmas on the statements and the loop\<close>

lemmas prim_defs = ret_def andThen_def Logf_def Logger_Exit_def Infof_def Fatalf_def
  ObserveDuration_def httpCounter_Inc_def amqRequests_Inc_def WriteHeader_def
  stomp_Dial_def Conn_Send_def Conn_Disconnect_def

lemma send_ok:
  "publish_ok br (conns st) \<Longrightarrow>
   sendAlertToStomp lg cfg br topic a st =
     (Return None, st\<lparr>conns := Suc (conns st),
        stomp_calls := stomp_calls st @ publish_calls cfg topic (conns st) a,
        log_entries := log_entries st @
          [(InfoLevel, ''amq request {topic: %s, message: %s}''),
           (InfoLevel, ''connected to stomp endpoint'')]\<rparr>)"
  by (simp add: sendAlertToStomp_def json_Marshal_def prim_defs Let_def publish_ok_def
        publish_calls_def dial_call_def send_call_def)

lemma send_fails:
  "\<not> publish_ok br (conns st) \<Longrightarrow>
   sendAlertToStomp log cfg br topic a st =
     (Exit 1, st\<lparr>conns := Suc (conns st),
        stomp_calls := stomp_calls st @ failed_calls cfg br topic (conns st) a,
        log_entries := log_entries st @
          (if dial_err (br (conns st)) \<noteq> None
           then [(InfoLevel, ''amq request {topic: %s, message: %s}''),
                 (FatalLevel, ''error while connecting to stomp: %s'')]
           else [(InfoLevel, ''amq request {topic: %s, message: %s}''),
                 (InfoLevel, ''connected to stomp endpoint''),
                 (FatalLevel, ''failed to send message to ActiveMQ broker: %v'')])\<rparr>)"
  by (auto simp add: sendAlertToStomp_def json_Marshal_def prim_defs Let_def publish_ok_def
        failed_calls_def dial_call_def send_call_def log_def logrus_New_def)

lemma range_step_ok:
  "publish_ok br (conns st) \<Longrightarrow>
   range_Alerts lg cfg br topic (a # rest) st =
     range_Alerts lg cfg br topic rest
       (st\<lparr>conns := Suc (conns st),
          stomp_calls := stomp_calls st @ publish_calls cfg topic (conns st) a,
          log_entries := log_entries st @
            [(InfoLevel, ''amq request {topic: %s, message: %s}''),
             (InfoLevel, ''connected to stomp endpoint'')],
          amqRequests := (amqRequests st)(''ok'' := amqRequests st ''ok'' + 1)\<rparr>)"
  by (simp add: send_ok andThen_def ret_def amqRequests_Inc_def)

lemma range_step_fails:
  "\<not> publish_ok br (conns st) \<Longrightarrow>
   fst (range_Alerts log cfg br topic (a # rest) st) = Exit 1 \<and>
   snd (range_Alerts log cfg br topic (a # rest) st) =
     snd (sendAlertToStomp log cfg br topic a st)"
  by (simp add: send_fails andThen_def)

lemma range_Alerts_log:
  "range_Alerts log cfg br topic as st = (r, st') \<Longrightarrow>
   r = (if leading_ok br (conns st) (length as) = length as then Return () else Exit 1) \<and>
   amqRequests st' = (amqRequests st)
      (''ok'' := amqRequests st ''ok'' + leading_ok br (conns st) (length as)) \<and>
   httpDuration st' = httpDuration st \<and> httpCounter st' = httpCounter st \<and>
   status st' = status st \<and>
   stomp_calls st' = stomp_calls st @ expected_calls cfg br topic (conns st) as"
proof (induction as arbitrary: st)
  case Nil
  then show ?case by (auto simp: ret_def)
next
  case (Cons a rest)
  show ?case
  proof (cases "publish_ok br (conns st)")
    case True
    from Cons.prems have "range_Alerts log cfg br topic rest
       (st\<lparr>conns := Suc (conns st),
          stomp_calls := stomp_calls st @ publish_calls cfg topic (conns st) a,
          log_entries := log_entries st @
            [(InfoLevel, ''amq request {topic: %s, message: %s}''),
             (InfoLevel, ''connected to stomp endpoint'')],
          amqRequests := (amqRequests st)(''ok'' := amqRequests st ''ok'' + 1)\<rparr>) = (r, st')"
      by (simp only: range_step_ok [OF True])
    from Cons.IH [OF this] True show ?thesis
      by (auto simp: fun_eq_iff)
  next
    case False
    from range_step_fails [OF False, of cfg topic a rest] Cons.prems
    have "r = Exit 1" and "st' = snd (sendAlertToStomp log cfg br topic a st)"
      by auto
    with False show ?thesis
      by (simp add: send_fails)
  qed
qed


lemma sent_append: "sent (xs @ ys) = sent xs @ sent ys"
  by (induction xs rule: sent.induct) simp_all

lemma publish_attempts_append:
  "publish_attempts (xs @ ys) = publish_attempts xs + publish_attempts ys"
  by (simp add: publish_attempts_def)

lemma leading_ok_le: "leading_ok br k n \<le> n"
  by (induction n arbitrary: k) simp_all

lemma leading_ok_all:
  "(\<forall>j<n. publish_ok br (k + j)) \<Longrightarrow> leading_ok br k n = n"
proof (induction n arbitrary: k)
  case 0
  then show ?case by simp
next
  case (Suc n)
  from Suc.prems have "publish_ok br k" by (metis add.right_neutral zero_less_Suc)
  moreover from Suc.prems have "\<forall>j<n. publish_ok br (Suc k + j)"
    by (metis Suc_less_eq add_Suc_shift)
  ultimately show ?case using Suc.IH by simp
qed

lemma leading_ok_first:
  "i < n \<Longrightarrow> (\<forall>j<i. publish_ok br (k + j)) \<Longrightarrow> \<not> publish_ok br (k + i) \<Longrightarrow>
   leading_ok br k n = i"
proof (induction n arbitrary: k i)
  case 0
  then show ?case by simp
next
  case (Suc n)
  show ?case
  proof (cases i)
    case 0
    with Suc.prems show ?thesis by simp
  next
    case (Suc i')
    from Suc.prems(2) Suc have ok: "publish_ok br k" by (metis add.right_neutral zero_less_Suc)
    from Suc.prems(1) Suc have "i' < n" by simp
    moreover from Suc.prems(2) Suc have "\<forall>j<i'. publish_ok br (Suc k + j)"
      by (metis Suc_less_eq add_Suc_shift)
    moreover from Suc.prems(3) Suc have "\<not> publish_ok br (Suc k + i')" by simp
    ultimately have "leading_ok br (Suc k) n = i'" by (rule Suc.IH)
    with ok Suc show ?thesis by simp
  qed
qed

lemma attempts_publish_calls [simp]: "publish_attempts (publish_calls cfg topic k a) = 1"
  by (simp add: publish_attempts_def publish_calls_def dial_call_def send_call_def)

lemma attempts_failed_calls [simp]: "publish_attempts (failed_calls cfg br topic k a) = 1"
  by (simp add: publish_attempts_def failed_calls_def dial_call_def send_call_def)

lemma attempts_expected:
  "publish_attempts (expected_calls cfg br topic k as) =
     min (length as) (leading_ok br k (length as) + 1)"
  by (induction as arbitrary: k) (simp_all add: publish_attempts_append, simp add: publish_attempts_def)

lemma expected_calls_take:
  "expected_calls cfg br topic k as =
     concat (map (\<lambda>(j, a). publish_calls cfg topic j a)
               (enumerate k (take (leading_ok br k (length as)) as))) @
     (case drop (leading_ok br k (length as)) as of
        [] \<Rightarrow> []
      | a # rest \<Rightarrow> failed_calls cfg br topic (k + leading_ok br k (length as)) a)"
  by (induction as arbitrary: k) (simp_all split: list.splits)

lemma sent_publish_calls [simp]:
  "sent (publish_calls cfg topic k a) = [(topic, fst (json_Marshal a))]"
  by (simp add: publish_calls_def dial_call_def send_call_def)

lemma sent_expected:
  "\<exists>n\<le>length as. sent (expected_calls cfg br topic k as) =
       map (\<lambda>a. (topic, fst (json_Marshal a))) (take n as)"
proof (induction as arbitrary: k)
  case Nil
  then show ?case by simp
next
  case (Cons a rest)
  show ?case
  proof (cases "publish_ok br k")
    case True
    from Cons.IH [of "Suc k"] obtain n where n: "n \<le> length rest"
      "sent (expected_calls cfg br topic (Suc k) rest) =
         map (\<lambda>a. (topic, fst (json_Marshal a))) (take n rest)" by blast
    with True have "sent (expected_calls cfg br topic k (a # rest)) =
         map (\<lambda>a. (topic, fst (json_Marshal a))) (take (Suc n) (a # rest))"
      by (simp add: sent_append)
    moreover from n have "Suc n \<le> length (a # rest)" by simp
    ultimately show ?thesis by blast
  next
    case False
    show ?thesis
    proof (cases "dial_err (br k)")
      case None
      with False have "sent (expected_calls cfg br topic k (a # rest)) =
         map (\<lambda>a. (topic, fst (json_Marshal a))) (take 1 (a # rest))"
        by (simp add: failed_calls_def dial_call_def send_call_def)
      moreover have "1 \<le> length (a # rest)" by simp
      ultimately show ?thesis by blast
    next
      case (Some e)
      with False have "sent (expected_calls cfg br topic k (a # rest)) =
         map (\<lambda>a. (topic, fst (json_Marshal a))) (take 0 (a # rest))"
        by (simp add: failed_calls_def dial_call_def)
      then show ?thesis by blast
    qed
  qed
qed

lemma sent_expected_all:
  "leading_ok br k (length as) = length as \<Longrightarrow>
   sent (expected_calls cfg br topic k as) = map (\<lambda>a. (topic, fst (json_Marshal a))) as"
proof (induction as arbitrary: k)
  case Nil
  then show ?case by simp
next
  case (Cons a rest)
  then show ?case by (simp add: sent_append split: if_splits)
qed

lemma unmarshalAlerts_eq: "unmarshalAlerts un body = un body zero_Alerts"
  by (cases "un body zero_Alerts") (simp add: unmarshalAlerts_def)

lemma Itoa_200: "strconv_Itoa 200 = ''200''"
  by code_simp

lemma Itoa_500: "strconv_Itoa 500 = ''500''"
  by code_simp

lemma handler_decoded:
  assumes body: "Body req = (body, None)"
    and dec: "unmarshalAlerts un body = (batch, None)"
  shows "alertPOSTHandler lg cfg un br req =
     andThen (range_Alerts lg cfg br (ByName (Params req) ''topic'') (Alerts batch)) (\<lambda>_.
     andThen ObserveDuration (\<lambda>_.
     andThen (httpCounter_Inc ''200'') (\<lambda>_.
     WriteHeader 200)))"
  using body dec
  by (simp add: alertPOSTHandler_def io_ReadAll_def http_StatusOK_def Itoa_200)

lemma handler_log:
  assumes body: "Body req = (body, None)"
    and dec: "unmarshalAlerts un body = (batch, None)"
    and run: "alertPOSTHandler log cfg un br req st = (r, st')"
    and m: "m = leading_ok br (conns st) (length (Alerts batch))"
  shows "r = (if m = length (Alerts batch) then Return () else Exit 1)"
    and "amqRequests st' = (amqRequests st)(''ok'' := amqRequests st ''ok'' + m)"
    and "stomp_calls st' = stomp_calls st @
           expected_calls cfg br (ByName (Params req) ''topic'') (conns st) (Alerts batch)"
    and "status st' = (if m = length (Alerts batch) then Some 200 else status st)"
    and "httpCounter st' = (if m = length (Alerts batch)
           then (httpCounter st)(''200'' := httpCounter st ''200'' + 1) else httpCounter st)"
    and "httpDuration st' = (if m = length (Alerts batch)
           then httpDuration st + 1 else httpDuration st)"
proof -
  obtain r1 st1 where loop:
    "range_Alerts log cfg br (ByName (Params req) ''topic'') (Alerts batch) st = (r1, st1)"
    by (cases "range_Alerts log cfg br (ByName (Params req) ''topic'') (Alerts batch) st")
  note L = range_Alerts_log [OF loop]
  from run loop have run': "(r, st') =
     (case r1 of
        Return x \<Rightarrow> (Return (), st1\<lparr>httpDuration := httpDuration st1 + 1,
            httpCounter := (httpCounter st1)(''200'' := httpCounter st1 ''200'' + 1),
            status := Some 200\<rparr>)
      | Exit c \<Rightarrow> (Exit c, st1)
      | Panic p \<Rightarrow> (Panic p, st1))"
    by (cases r1) (auto simp add: handler_decoded [OF body dec] andThen_def ObserveDuration_def
          httpCounter_Inc_def WriteHeader_def)
  show "r = (if m = length (Alerts batch) then Return () else Exit 1)"
    using run' L m by (simp split: if_splits)
  show "amqRequests st' = (amqRequests st)(''ok'' := amqRequests st ''ok'' + m)"
    using run' L m by (simp split: if_splits)
  show "stomp_calls st' = stomp_calls st @
           expected_calls cfg br (ByName (Params req) ''topic'') (conns st) (Alerts batch)"
    using run' L m by (simp split: if_splits)
  show "status st' = (if m = length (Alerts batch) then Some 200 else status st)"
    using run' L m by (simp split: if_splits)
  show "httpCounter st' = (if m = length (Alerts batch)
           then (httpCounter st)(''200'' := httpCounter st ''200'' + 1) else httpCounter st)"
    using run' L m by (simp split: if_splits)
  show "httpDuration st' = (if m = length (Alerts batch)
           then httpDuration st + 1 else httpDuration st)"
    using run' L m by (simp split: if_splits)
qed


lemma handler_decode_fails:
  assumes body: "Body req = (body, None)"
    and dec: "un body zero_Alerts = (v, Some e)"
  shows "alertPOSTHandler lg cfg un br req st =
     (case ExitFunc lg of os_Exit \<Rightarrow> Exit 1 | exit_returns \<Rightarrow> Return (),
      st\<lparr>httpDuration := httpDuration st + 1,
         httpCounter := (httpCounter st)(''500'' := httpCounter st ''500'' + 1),
         status := Some 500,
         log_entries := log_entries st @
           [(FatalLevel,
             ''the request body could not be unmarshalled to an alerts object. reuqest body: %s. err: %s'')]\<rparr>)"
  using body dec
  by (simp add: alertPOSTHandler_def io_ReadAll_def unmarshalAlerts_eq
        http_StatusInternalServerError_def Itoa_500 prim_defs split: exit_func.splits)

lemma keys_sorted_list_of_fmap:
  "map fst (sorted_list_of_fmap f) = sorted_list_of_set (fset (fmdom f))"
  by (simp add: sorted_list_of_fmap_def comp_def sorted_list_of_fset.rep_eq)

lemma handler_log_run:
  assumes body: "Body req = (body, None)"
    and dec: "unmarshalAlerts un body = (batch, None)"
  shows "fst (alertPOSTHandler log cfg un br req st) =
           (if leading_ok br (conns st) (length (Alerts batch)) = length (Alerts batch)
            then Return () else Exit 1)"
    and "amqRequests (snd (alertPOSTHandler log cfg un br req st)) =
           (amqRequests st)(''ok'' := amqRequests st ''ok'' +
              leading_ok br (conns st) (length (Alerts batch)))"
    and "stomp_calls (snd (alertPOSTHandler log cfg un br req st)) = stomp_calls st @
           expected_calls cfg br (ByName (Params req) ''topic'') (conns st) (Alerts batch)"
    and "status (snd (alertPOSTHandler log cfg un br req st)) =
           (if leading_ok br (conns st) (length (Alerts batch)) = length (Alerts batch)
            then Some 200 else status st)"
    and "httpCounter (snd (alertPOSTHandler log cfg un br req st)) =
           (if leading_ok br (conns st) (length (Alerts batch)) = length (Alerts batch)
            then (httpCounter st)(''200'' := httpCounter st ''200'' + 1) else httpCounter st)"
  using handler_log [OF body dec surjective_pairing refl, of cfg br st]
  by simp_all

lemma example_decodes:
  "unmarshalAlerts example_Unmarshal body_one = (zero_Alerts\<lparr>Alerts := [alert_Foo]\<rparr>, None)"
  "unmarshalAlerts example_Unmarshal body_two =
     (zero_Alerts\<lparr>Alerts := [alert_Foo, alert_Bar]\<rparr>, None)"
  by (simp_all add: unmarshalAlerts_eq example_Unmarshal_def body_empty_def body_one_def
        body_two_def)

lemma post_Body: "Body (post topic data) = (data, None)"
  by (simp add: post_def)

lemma post_topic: "ByName (Params (post topic data)) ''topic'' = topic"
  by (simp add: post_def)

lemma example_brokers:
  "publish_ok broker_up k"
  "\<not> publish_ok broker_down k"
  "publish_ok (broker_refuses n) k = (k \<noteq> n)"
  "publish_ok (broker_breaks n) k = (k \<noteq> n)"
  "dial_err (broker_refuses n k) =
     (if k = n then Some (Error ''dial tcp: connection refused'') else None)"
  "dial_err (broker_down k) = Some (Error ''dial tcp: connection refused'')"
  "dial_err (broker_breaks n k) = None"
  "send_err (broker_breaks n k) =
     (if k = n then Some (Error ''write tcp: broken pipe'') else None)"
  by (simp_all add: publish_ok_def broker_up_def broker_down_def broker_refuses_def
        broker_breaks_def connection_accepted_def connection_refused_def connection_broken_def)

lemma init_state_simps:
  "conns init_state = 0" "stomp_calls init_state = []" "status init_state = None"
  "amqRequests init_state l = 0" "httpCounter init_state l = 0" "httpDuration init_state = 0"
  by (simp_all add: init_state_def)

lemma publish_attempts_Nil: "publish_attempts [] = 0"
  by (simp add: publish_attempts_def)

lemma send_dial_fails_any:
  "dial_err (br (conns st)) = Some e \<Longrightarrow>
   sendAlertToStomp lg cfg br topic a st =
     (case ExitFunc lg of
        os_Exit \<Rightarrow>
          (Exit 1,
           st\<lparr>conns := conns st + 1,
              stomp_calls := stomp_calls st @ [dial_call cfg],
              log_entries := log_entries st @
                [(InfoLevel, ''amq request {topic: %s, message: %s}''),
                 (FatalLevel, ''error while connecting to stomp: %s'')]\<rparr>)
      | exit_returns \<Rightarrow>
          (Panic nil_dereference,
           st\<lparr>conns := conns st + 1,
              stomp_calls := stomp_calls st @ [dial_call cfg, send_call topic None a],
              log_entries := log_entries st @
                [(InfoLevel, ''amq request {topic: %s, message: %s}''),
                 (FatalLevel, ''error while connecting to stomp: %s'')]\<rparr>))"
  by (simp add: sendAlertToStomp_def json_Marshal_def prim_defs Let_def dial_call_def
        send_call_def split: exit_func.splits)

lemma send_send_fails_any:
  "dial_err (br (conns st)) = None \<Longrightarrow> send_err (br (conns st)) = Some e \<Longrightarrow>
   sendAlertToStomp lg cfg br topic a st =
     (case ExitFunc lg of os_Exit \<Rightarrow> Exit 1 | exit_returns \<Rightarrow> Return (Some e),
      st\<lparr>conns := conns st + 1,
         stomp_calls := stomp_calls st @ [dial_call cfg, send_call topic (Some (conns st)) a],
         log_entries := log_entries st @
           [(InfoLevel, ''amq request {topic: %s, message: %s}''),
            (InfoLevel, ''connected to stomp endpoint''),
            (FatalLevel, ''failed to send message to ActiveMQ broker: %v'')]\<rparr>)"
  by (simp add: sendAlertToStomp_def json_Marshal_def prim_defs Let_def dial_call_def
        send_call_def split: exit_func.splits)

lemma ExitFunc_log: "ExitFunc log = os_Exit"
  by (simp add: log_def logrus_New_def)

section \<open>The claims\<close>

subsection \<open>C1: a failed publish and the rest of the batch\<close>

text \<open>
  C1, as amended. The claim says that after a failed publish the remaining alerts of the
  batch are still attempted. In the program every failure of a publish (a failed dial, a
  failed send) reaches \<^verbatim>\<open>log.Fatalf\<close> inside \<^verbatim>\<open>sendAlertToStomp\<close>, which ends the
  process with exit status 1. So: if the publish of the alert of index \<open>i\<close> is the first to
  fail, the forward operation ends there. The alerts before it have been published in
  order, each on a connection of its own, the failing alert has been attempted, exactly
  \<open>i + 1\<close> publish attempts have been made, and no later alert of the batch is attempted.
\<close>

theorem C1_forward_stops_at_first_failure:
  assumes "Body req = (body, None)"
    and "unmarshalAlerts un body = (batch, None)"
    and "i < length (Alerts batch)"
    and "\<forall>j<i. publish_ok br (conns st + j)"
    and "\<not> publish_ok br (conns st + i)"
    and "alertPOSTHandler log cfg un br req st = (r, st')"
  shows "r = Exit 1 \<and>
     publish_attempts (stomp_calls st') = publish_attempts (stomp_calls st) + (i + 1) \<and>
     stomp_calls st' = stomp_calls st @
       concat (map (\<lambda>(k, a). publish_calls cfg (ByName (Params req) ''topic'') k a)
                 (enumerate (conns st) (take i (Alerts batch)))) @
       failed_calls cfg br (ByName (Params req) ''topic'') (conns st + i) (Alerts batch ! i)"
proof -
  have m: "leading_ok br (conns st) (length (Alerts batch)) = i"
    using assms(3,4,5) by (rule leading_ok_first)
  note H = handler_log [OF assms(1,2,6) refl]
  have d: "drop i (Alerts batch) = Alerts batch ! i # drop (Suc i) (Alerts batch)"
    using assms(3) by (simp add: Cons_nth_drop_Suc)
  have "r = Exit 1"
    using H(1) m assms(3) by simp
  moreover have "publish_attempts (stomp_calls st') = publish_attempts (stomp_calls st) + (i + 1)"
    using H(3) m assms(3) by (simp add: publish_attempts_append attempts_expected)
  moreover have "stomp_calls st' = stomp_calls st @
       concat (map (\<lambda>(k, a). publish_calls cfg (ByName (Params req) ''topic'') k a)
                 (enumerate (conns st) (take i (Alerts batch)))) @
       failed_calls cfg br (ByName (Params req) ''topic'') (conns st + i) (Alerts batch ! i)"
    using H(3) m d
    by (simp add: expected_calls_take [of cfg br _ "conns st" "Alerts batch"])
  ultimately show ?thesis by simp
qed

text \<open>
  An instance: a batch of two alerts, the broker refuses the second connection. Both
  alerts are attempted, the first is published, and the process exits.
\<close>

theorem C1_witness:
  "fst (alertPOSTHandler log default_config example_Unmarshal (broker_refuses 1)
          (post ''kubernetes'' body_two) init_state) = Exit 1 \<and>
   publish_attempts (stomp_calls (snd (alertPOSTHandler log default_config example_Unmarshal
          (broker_refuses 1) (post ''kubernetes'' body_two) init_state))) = 2 \<and>
   stomp_calls (snd (alertPOSTHandler log default_config example_Unmarshal
          (broker_refuses 1) (post ''kubernetes'' body_two) init_state)) =
     [dial_call default_config, send_call ''kubernetes'' (Some 0) alert_Foo, Disconnect (Some 0),
      dial_call default_config]"
proof -
  have i: "(1::nat) < length (Alerts (zero_Alerts\<lparr>Alerts := [alert_Foo, alert_Bar]\<rparr>))"
    by simp
  have ok: "\<forall>j<1. publish_ok (broker_refuses 1) (conns init_state + j)"
    by (simp add: example_brokers init_state_simps)
  have ko: "\<not> publish_ok (broker_refuses 1) (conns init_state + 1)"
    by (simp add: example_brokers init_state_simps)
  from C1_forward_stops_at_first_failure
    [where req = "post ''kubernetes'' body_two" and cfg = default_config
       and un = example_Unmarshal and br = "broker_refuses 1" and st = init_state,
     OF post_Body example_decodes(2) i ok ko surjective_pairing]
  show ?thesis
    by (simp add: init_state_simps post_topic publish_calls_def failed_calls_def
          example_brokers publish_attempts_def dial_call_def send_call_def)
qed

text \<open>
  The claim fails on a batch of two alerts when the broker refuses the first connection
  and would accept the second: the only call made to the broker is the first dial, so the
  second alert is never attempted.
\<close>

theorem C1_counterexample:
  "Alerts (fst (unmarshalAlerts example_Unmarshal body_two)) = [alert_Foo, alert_Bar] \<and>
   \<not> publish_ok (broker_refuses 0) 0 \<and> publish_ok (broker_refuses 0) 1 \<and>
   stomp_calls (snd (alertPOSTHandler log default_config example_Unmarshal (broker_refuses 0)
          (post ''kubernetes'' body_two) init_state)) = [dial_call default_config] \<and>
   fst (alertPOSTHandler log default_config example_Unmarshal (broker_refuses 0)
          (post ''kubernetes'' body_two) init_state) = Exit 1 \<and>
   status (snd (alertPOSTHandler log default_config example_Unmarshal (broker_refuses 0)
          (post ''kubernetes'' body_two) init_state)) = None"
  by (simp add: handler_log_run [OF post_Body example_decodes(2)] example_decodes
        example_brokers init_state_simps failed_calls_def)

subsection \<open>C2: the answer of the handler\<close>

text \<open>
  C2, evaluated where it fails. The claim says that the handler answers 500 when at least
  one publish fails, and so does the comment above \<^verbatim>\<open>alertPOSTHandler\<close> in the source.
  On a batch of one alert with the broker refusing the connection, the process exits with
  status 1 inside \<^verbatim>\<open>sendAlertToStomp\<close>: the handler writes no status and counts no
  response with code 500.
\<close>

theorem C2_publish_failure_not_answered:
  "unmarshalAlerts example_Unmarshal body_one = (zero_Alerts\<lparr>Alerts := [alert_Foo]\<rparr>, None) \<and>
   \<not> publish_ok broker_down 0 \<and>
   fst (alertPOSTHandler log default_config example_Unmarshal broker_down
          (post ''kubernetes'' body_one) init_state) = Exit 1 \<and>
   status (snd (alertPOSTHandler log default_config example_Unmarshal broker_down
          (post ''kubernetes'' body_one) init_state)) = None \<and>
   httpCounter (snd (alertPOSTHandler log default_config example_Unmarshal broker_down
          (post ''kubernetes'' body_one) init_state)) ''500'' = 0"
  by (simp add: handler_log_run [OF post_Body example_decodes(1)] example_decodes
        example_brokers init_state_simps)

subsection \<open>C3: the publish counters\<close>

text \<open>
  C3, as amended. When all \<open>N\<close> publishes of a batch succeed, \<open>N\<close> publish attempts are
  made, the counter \<^verbatim>\<open>ok\<close> increases by exactly \<open>N\<close> and \<^verbatim>\<open>not_ok\<close> does not move.
  When the first publish to fail is that of the alert of index \<open>i\<close>, exactly \<open>i + 1\<close>
  publish attempts are made and \<^verbatim>\<open>ok\<close> increases by exactly \<open>i\<close>.
\<close>

theorem C3_publish_counters:
  assumes "Body req = (body, None)"
    and "unmarshalAlerts un body = (batch, None)"
    and "alertPOSTHandler log cfg un br req st = (r, st')"
  shows
    "((\<forall>j<length (Alerts batch). publish_ok br (conns st + j)) \<longrightarrow>
        publish_attempts (stomp_calls st') =
          publish_attempts (stomp_calls st) + length (Alerts batch) \<and>
        amqRequests st' ''ok'' = amqRequests st ''ok'' + length (Alerts batch) \<and>
        amqRequests st' ''not_ok'' = amqRequests st ''not_ok'') \<and>
     (\<forall>i<length (Alerts batch).
        (\<forall>j<i. publish_ok br (conns st + j)) \<and> \<not> publish_ok br (conns st + i) \<longrightarrow>
        publish_attempts (stomp_calls st') = publish_attempts (stomp_calls st) + (i + 1) \<and>
        amqRequests st' ''ok'' = amqRequests st ''ok'' + i)"
proof -
  note H = handler_log [OF assms refl]
  have all: "publish_attempts (stomp_calls st') =
          publish_attempts (stomp_calls st) + length (Alerts batch) \<and>
        amqRequests st' ''ok'' = amqRequests st ''ok'' + length (Alerts batch) \<and>
        amqRequests st' ''not_ok'' = amqRequests st ''not_ok''"
    if "\<forall>j<length (Alerts batch). publish_ok br (conns st + j)"
  proof -
    have "leading_ok br (conns st) (length (Alerts batch)) = length (Alerts batch)"
      using that by (rule leading_ok_all)
    then show ?thesis
      using H(2,3) by (simp add: publish_attempts_append attempts_expected)
  qed
  have first: "publish_attempts (stomp_calls st') = publish_attempts (stomp_calls st) + (i + 1) \<and>
        amqRequests st' ''ok'' = amqRequests st ''ok'' + i"
    if "i < length (Alerts batch)" "\<forall>j<i. publish_ok br (conns st + j)"
       "\<not> publish_ok br (conns st + i)" for i
  proof -
    have "leading_ok br (conns st) (length (Alerts batch)) = i"
      using that by (rule leading_ok_first)
    then show ?thesis
      using H(2,3) that(1) by (simp add: publish_attempts_append attempts_expected)
  qed
  from all first show ?thesis by blast
qed

text \<open>
  Instances on a batch of two alerts: with a broker that accepts every connection, and
  with one that refuses the second connection.
\<close>

theorem C3_witness:
  "publish_attempts (stomp_calls (snd (alertPOSTHandler log default_config example_Unmarshal
      broker_up (post ''kubernetes'' body_two) init_state))) = 2 \<and>
   amqRequests (snd (alertPOSTHandler log default_config example_Unmarshal
      broker_up (post ''kubernetes'' body_two) init_state)) ''ok'' = 2 \<and>
   amqRequests (snd (alertPOSTHandler log default_config example_Unmarshal
      broker_up (post ''kubernetes'' body_two) init_state)) ''not_ok'' = 0 \<and>
   publish_attempts (stomp_calls (snd (alertPOSTHandler log default_config example_Unmarshal
      (broker_refuses 1) (post ''kubernetes'' body_two) init_state))) = 2 \<and>
   amqRequests (snd (alertPOSTHandler log default_config example_Unmarshal
      (broker_refuses 1) (post ''kubernetes'' body_two) init_state)) ''ok'' = 1"
proof -
  have up: "\<forall>j<length (Alerts (zero_Alerts\<lparr>Alerts := [alert_Foo, alert_Bar]\<rparr>)).
      publish_ok broker_up (conns init_state + j)"
    by (simp add: example_brokers)
  have i: "(1::nat) < length (Alerts (zero_Alerts\<lparr>Alerts := [alert_Foo, alert_Bar]\<rparr>))"
    by simp
  have r: "(\<forall>j<1. publish_ok (broker_refuses 1) (conns init_state + j)) \<and>
      \<not> publish_ok (broker_refuses 1) (conns init_state + 1)"
    by (simp add: example_brokers init_state_simps)
  note A = C3_publish_counters
    [where req = "post ''kubernetes'' body_two" and cfg = default_config
       and un = example_Unmarshal and br = broker_up and st = init_state,
     OF post_Body example_decodes(2) surjective_pairing]
  note B = C3_publish_counters
    [where req = "post ''kubernetes'' body_two" and cfg = default_config
       and un = example_Unmarshal and br = "broker_refuses 1" and st = init_state,
     OF post_Body example_decodes(2) surjective_pairing]
  from A up have "publish_attempts (stomp_calls (snd (alertPOSTHandler log default_config
      example_Unmarshal broker_up (post ''kubernetes'' body_two) init_state))) =
        publish_attempts (stomp_calls init_state) +
        length (Alerts (zero_Alerts\<lparr>Alerts := [alert_Foo, alert_Bar]\<rparr>)) \<and>
      amqRequests (snd (alertPOSTHandler log default_config example_Unmarshal
        broker_up (post ''kubernetes'' body_two) init_state)) ''ok'' =
        amqRequests init_state ''ok'' +
        length (Alerts (zero_Alerts\<lparr>Alerts := [alert_Foo, alert_Bar]\<rparr>)) \<and>
      amqRequests (snd (alertPOSTHandler log default_config example_Unmarshal
        broker_up (post ''kubernetes'' body_two) init_state)) ''not_ok'' =
        amqRequests init_state ''not_ok''"
    by blast
  moreover from B i r have "publish_attempts (stomp_calls (snd (alertPOSTHandler log
      default_config example_Unmarshal (broker_refuses 1) (post ''kubernetes'' body_two)
      init_state))) = publish_attempts (stomp_calls init_state) + (1 + 1) \<and>
      amqRequests (snd (alertPOSTHandler log default_config example_Unmarshal
        (broker_refuses 1) (post ''kubernetes'' body_two) init_state)) ''ok'' =
        amqRequests init_state ''ok'' + 1"
    by blast
  ultimately show ?thesis
    by (simp add: init_state_simps publish_attempts_Nil)
qed

text \<open>
  The claim fails on a batch of two alerts when the broker refuses the first connection
  only: one publish attempt is made, not two, and neither \<^verbatim>\<open>not_ok\<close> nor \<^verbatim>\<open>ok\<close>
  moves, where the claim says that each increases by 1.
\<close>

theorem C3_counterexample:
  "length (Alerts (fst (unmarshalAlerts example_Unmarshal body_two))) = 2 \<and>
   \<not> publish_ok (broker_refuses 0) 0 \<and> publish_ok (broker_refuses 0) 1 \<and>
   publish_attempts (stomp_calls (snd (alertPOSTHandler log default_config example_Unmarshal
      (broker_refuses 0) (post ''kubernetes'' body_two) init_state))) = 1 \<and>
   amqRequests (snd (alertPOSTHandler log default_config example_Unmarshal
      (broker_refuses 0) (post ''kubernetes'' body_two) init_state)) ''not_ok'' = 0 \<and>
   amqRequests (snd (alertPOSTHandler log default_config example_Unmarshal
      (broker_refuses 0) (post ''kubernetes'' body_two) init_state)) ''ok'' = 0"
  by (simp add: handler_log_run [OF post_Body example_decodes(2)] example_decodes
        example_brokers init_state_simps publish_attempts_Nil)

subsection \<open>C4: a connection that cannot be established\<close>

text \<open>
  C4, evaluated where it fails. The claim says that a failed connection makes the publish
  call return a connect error, counted in \<^verbatim>\<open>not_ok\<close> and answered as a failed forward.
  With the broker refusing the connection, \<^verbatim>\<open>sendAlertToStomp\<close> does not return: the
  branch for the dial error has no \<^verbatim>\<open>return err\<close> (its two sibling branches have one) and
  its \<^verbatim>\<open>log.Fatalf\<close> ends the process. The handler never reaches its own error branch:
  \<^verbatim>\<open>not_ok\<close> stays at 0 and no status is written.
\<close>

theorem C4_connect_failure_exits:
  "dial_err (broker_down (conns init_state)) = Some (Error ''dial tcp: connection refused'') \<and>
   fst (sendAlertToStomp log default_config broker_down ''kubernetes'' alert_Foo init_state) =
     Exit 1 \<and>
   fst (alertPOSTHandler log default_config example_Unmarshal broker_down
          (post ''kubernetes'' body_one) init_state) = Exit 1 \<and>
   amqRequests (snd (alertPOSTHandler log default_config example_Unmarshal broker_down
          (post ''kubernetes'' body_one) init_state)) ''not_ok'' = 0 \<and>
   status (snd (alertPOSTHandler log default_config example_Unmarshal broker_down
          (post ''kubernetes'' body_one) init_state)) = None"
  by (simp add: handler_log_run [OF post_Body example_decodes(1)] example_decodes
        example_brokers init_state_simps send_dial_fails_any ExitFunc_log)

subsection \<open>C5: the disconnect\<close>

text \<open>
  C5, evaluated where it fails. The claim says that a disconnect is attempted on every
  exit path of a publish call. When the connection is established and the send fails, the
  calls made to the STOMP client are the dial and the send: no disconnect. This holds under
  the program's logger, where \<^verbatim>\<open>log.Fatalf\<close> ends the process, and also under a logger
  whose exit hook returns, where the function returns the send error at once. (On the
  successful path the disconnect is called and its result discarded, whatever it is: see
  lemma \<open>send_ok\<close>.)
\<close>

theorem C5_send_failure_no_disconnect:
  "dial_err (broker_breaks 0 (conns init_state)) = None \<and>
   send_err (broker_breaks 0 (conns init_state)) = Some (Error ''write tcp: broken pipe'') \<and>
   fst (sendAlertToStomp log default_config (broker_breaks 0) ''kubernetes'' alert_Foo
          init_state) = Exit 1 \<and>
   stomp_calls (snd (sendAlertToStomp log default_config (broker_breaks 0) ''kubernetes''
          alert_Foo init_state)) =
     [dial_call default_config, send_call ''kubernetes'' (Some 0) alert_Foo] \<and>
   filter is_Disconnect (stomp_calls (snd (sendAlertToStomp log default_config
          (broker_breaks 0) ''kubernetes'' alert_Foo init_state))) = [] \<and>
   fst (sendAlertToStomp \<lparr>ExitFunc = exit_returns\<rparr> default_config (broker_breaks 0)
          ''kubernetes'' alert_Foo init_state) = Return (Some (Error ''write tcp: broken pipe'')) \<and>
   filter is_Disconnect (stomp_calls (snd (sendAlertToStomp \<lparr>ExitFunc = exit_returns\<rparr>
          default_config (broker_breaks 0) ''kubernetes'' alert_Foo init_state))) = []"
  by (simp add: example_brokers init_state_simps ExitFunc_log dial_call_def send_call_def
        send_send_fails_any [where e = "Error ''write tcp: broken pipe''"])

subsection \<open>C6: a body that does not decode\<close>

text \<open>
  C6. When the decoding of the request body fails, the handler sets the status 500, counts
  one response with code 500 and logs the failure with \<^verbatim>\<open>log.Fatalf\<close> (which ends the process
  under the program's logger, and after which the handler returns under a logger whose
  exit hook returns). It calls the STOMP client not at all: no connection is opened, no
  message is sent, and the publish counters do not move.
\<close>

theorem C6_decode_failure_no_publish:
  assumes "Body req = (body, None)"
    and "unmarshalAlerts un body = (v, Some e)"
    and "alertPOSTHandler lg cfg un br req st = (r, st')"
  shows "r = (case ExitFunc lg of os_Exit \<Rightarrow> Exit 1 | exit_returns \<Rightarrow> Return ()) \<and>
     status st' = Some http_StatusInternalServerError \<and>
     httpCounter st' ''500'' = httpCounter st ''500'' + 1 \<and>
     stomp_calls st' = stomp_calls st \<and>
     conns st' = conns st \<and>
     amqRequests st' = amqRequests st"
  using assms handler_decode_fails [of req body un v e lg cfg br st]
  by (auto simp add: unmarshalAlerts_eq http_StatusInternalServerError_def)

theorem C6_witness:
  "fst (alertPOSTHandler log default_config example_Unmarshal broker_up
       (post ''kubernetes'' body_truncated) init_state) = Exit 1 \<and>
   status (snd (alertPOSTHandler log default_config example_Unmarshal broker_up
       (post ''kubernetes'' body_truncated) init_state)) = Some 500 \<and>
   stomp_calls (snd (alertPOSTHandler log default_config example_Unmarshal broker_up
       (post ''kubernetes'' body_truncated) init_state)) = []"
proof -
  have d: "unmarshalAlerts example_Unmarshal body_truncated =
      (zero_Alerts, Some (Error ''unexpected end of JSON input''))"
    by (simp add: unmarshalAlerts_eq example_Unmarshal_def body_truncated_def body_empty_def
          body_one_def body_two_def)
  from C6_decode_failure_no_publish
    [where req = "post ''kubernetes'' body_truncated" and cfg = default_config
       and un = example_Unmarshal and br = broker_up and st = init_state and lg = log,
     OF post_Body d surjective_pairing]
  show ?thesis
    by (simp add: init_state_simps http_StatusInternalServerError_def log_def logrus_New_def)
qed

subsection \<open>C7: the empty batch\<close>




subsection \<open>C8: the order of the messages\<close>

text \<open>
  C8. The messages handed to the broker during a forward call are, in order, the
  serialisations of the first \<open>n\<close> alerts of the decoded batch, each addressed to the
  topic of the request, for some \<open>n\<close>: the \<open>i\<close>-th message is the serialisation of the
  \<open>i\<close>-th alert. When every publish succeeds, \<open>n\<close> is the size of the batch, and the
  calls to the STOMP client are the dial, the send and the disconnect of the first alert,
  then those of the second, and so on: one connection at a time.
\<close>

theorem C8_publish_order:
  assumes "Body req = (body, None)"
    and "unmarshalAlerts un body = (batch, None)"
    and "alertPOSTHandler log cfg un br req st = (r, st')"
  shows
    "(\<exists>n\<le>length (Alerts batch).
        sent (stomp_calls st') = sent (stomp_calls st) @
          map (\<lambda>a. (ByName (Params req) ''topic'', fst (json_Marshal a)))
            (take n (Alerts batch))) \<and>
     ((\<forall>j<length (Alerts batch). publish_ok br (conns st + j)) \<longrightarrow>
        sent (stomp_calls st') = sent (stomp_calls st) @
          map (\<lambda>a. (ByName (Params req) ''topic'', fst (json_Marshal a))) (Alerts batch) \<and>
        stomp_calls st' = stomp_calls st @
          concat (map (\<lambda>(k, a). publish_calls cfg (ByName (Params req) ''topic'') k a)
                    (enumerate (conns st) (Alerts batch))))"
proof -
  note H = handler_log [OF assms refl]
  obtain n where n: "n \<le> length (Alerts batch)"
      "sent (expected_calls cfg br (ByName (Params req) ''topic'') (conns st) (Alerts batch)) =
         map (\<lambda>a. (ByName (Params req) ''topic'', fst (json_Marshal a))) (take n (Alerts batch))"
    using sent_expected by blast
  have prefix: "\<exists>n\<le>length (Alerts batch).
        sent (stomp_calls st') = sent (stomp_calls st) @
          map (\<lambda>a. (ByName (Params req) ''topic'', fst (json_Marshal a)))
            (take n (Alerts batch))"
    using H(3) n by (auto simp add: sent_append)
  have all: "sent (stomp_calls st') = sent (stomp_calls st) @
          map (\<lambda>a. (ByName (Params req) ''topic'', fst (json_Marshal a))) (Alerts batch) \<and>
        stomp_calls st' = stomp_calls st @
          concat (map (\<lambda>(k, a). publish_calls cfg (ByName (Params req) ''topic'') k a)
                    (enumerate (conns st) (Alerts batch)))"
    if "\<forall>j<length (Alerts batch). publish_ok br (conns st + j)"
  proof -
    have m: "leading_ok br (conns st) (length (Alerts batch)) = length (Alerts batch)"
      using that by (rule leading_ok_all)
    have "sent (stomp_calls st') = sent (stomp_calls st) @
          map (\<lambda>a. (ByName (Params req) ''topic'', fst (json_Marshal a))) (Alerts batch)"
      using H(3) by (simp add: sent_append sent_expected_all [OF m])
    moreover have "stomp_calls st' = stomp_calls st @
          concat (map (\<lambda>(k, a). publish_calls cfg (ByName (Params req) ''topic'') k a)
                    (enumerate (conns st) (Alerts batch)))"
      using H(3) m
      by (simp add: expected_calls_take [of cfg br _ "conns st" "Alerts batch"])
    ultimately show ?thesis by simp
  qed
  from prefix all show ?thesis by blast
qed

text \<open>An instance: a batch of two alerts and a broker that accepts every connection.\<close>

theorem C8_witness:
  "sent (stomp_calls (snd (alertPOSTHandler log default_config example_Unmarshal broker_up
      (post ''kubernetes'' body_two) init_state))) =
     [(''kubernetes'', fst (json_Marshal alert_Foo)),
      (''kubernetes'', fst (json_Marshal alert_Bar))] \<and>
   stomp_calls (snd (alertPOSTHandler log default_config example_Unmarshal broker_up
      (post ''kubernetes'' body_two) init_state)) =
     [dial_call default_config, send_call ''kubernetes'' (Some 0) alert_Foo, Disconnect (Some 0),
      dial_call default_config, send_call ''kubernetes'' (Some 1) alert_Bar, Disconnect (Some 1)]"
proof -
  have up: "\<forall>j<length (Alerts (zero_Alerts\<lparr>Alerts := [alert_Foo, alert_Bar]\<rparr>)).
      publish_ok broker_up (conns init_state + j)"
    by (simp add: example_brokers)
  note A = C8_publish_order
    [where req = "post ''kubernetes'' body_two" and cfg = default_config
       and un = example_Unmarshal and br = broker_up and st = init_state,
     OF post_Body example_decodes(2) surjective_pairing]
  from A up have "sent (stomp_calls (snd (alertPOSTHandler log default_config
      example_Unmarshal broker_up (post ''kubernetes'' body_two) init_state))) =
        sent (stomp_calls init_state) @
        map (\<lambda>a. (ByName (Params (post ''kubernetes'' body_two)) ''topic'', fst (json_Marshal a)))
          (Alerts (zero_Alerts\<lparr>Alerts := [alert_Foo, alert_Bar]\<rparr>)) \<and>
      stomp_calls (snd (alertPOSTHandler log default_config example_Unmarshal broker_up
        (post ''kubernetes'' body_two) init_state)) =
        stomp_calls init_state @
        concat (map (\<lambda>(k, a). publish_calls default_config
                      (ByName (Params (post ''kubernetes'' body_two)) ''topic'') k a)
                  (enumerate (conns init_state)
                     (Alerts (zero_Alerts\<lparr>Alerts := [alert_Foo, alert_Bar]\<rparr>))))"
    by blast
  then show ?thesis
    by (simp add: init_state_simps post_topic publish_calls_def dial_call_def send_call_def)
qed

subsection \<open>C9: the labels of a re-serialised alert\<close>

text \<open>
  C9. The message published for an alert is an object whose member \<^verbatim>\<open>labels\<close> holds
  exactly the key/value pairs of the alert's labels: it is an object with distinct, sorted
  keys and string values that, read as a map, is the alert's label map. For the nil map
  (a payload without labels) the member is \<^verbatim>\<open>null\<close>, which holds no pair.
\<close>

theorem C9_labels_round_trip:
  "\<exists>members. json_Marshal a = (JObject members, None) \<and>
     (case Labels a of
        None \<Rightarrow> map_of members ''labels'' = Some JNull
      | Some f \<Rightarrow>
          (\<exists>ps. map_of members ''labels'' = Some (JObject (map (\<lambda>(k, v). (k, JString v)) ps)) \<and>
                distinct (map fst ps) \<and> sorted (map fst ps) \<and> map_of ps = fmlookup f))"
proof (cases "Labels a")
  case None
  then show ?thesis
    by (simp add: json_Marshal_def marshal_string_map_def)
next
  case (Some f)
  have "map_of (sorted_list_of_fmap f) = fmlookup f"
    by simp
  moreover have "distinct (map fst (sorted_list_of_fmap f))"
    and "sorted (map fst (sorted_list_of_fmap f))"
    by (simp_all add: keys_sorted_list_of_fmap)
  ultimately show ?thesis
    using Some by (auto simp add: json_Marshal_def marshal_string_map_def)
qed

subsection \<open>C10: the branch for a failed dial\<close>

text \<open>
  C10, as amended. When the dial returns an error, \<^verbatim>\<open>sendAlertToStomp\<close> never returns to
  its caller. The branch for the error holds no \<^verbatim>\<open>return\<close>, only \<^verbatim>\<open>log.Fatalf\<close>. Under
  the program's logger (made by \<^verbatim>\<open>logrus.New()\<close>, exit function \<^verbatim>\<open>os.Exit\<close>) the process
  ends there with status 1 and the send step is not reached: the only call made to the
  STOMP client is the dial. Only under a logger whose exit hook returns does control fall
  through to the send step, which is then invoked on the nil connection and panics.
\<close>

theorem C10_connect_error_branch:
  assumes "dial_err (br (conns st)) = Some e"
  shows "sendAlertToStomp lg cfg br topic a st =
     (case ExitFunc lg of
        os_Exit \<Rightarrow>
          (Exit 1,
           st\<lparr>conns := conns st + 1,
              stomp_calls := stomp_calls st @ [dial_call cfg],
              log_entries := log_entries st @
                [(InfoLevel, ''amq request {topic: %s, message: %s}''),
                 (FatalLevel, ''error while connecting to stomp: %s'')]\<rparr>)
      | exit_returns \<Rightarrow>
          (Panic nil_dereference,
           st\<lparr>conns := conns st + 1,
              stomp_calls := stomp_calls st @ [dial_call cfg, send_call topic None a],
              log_entries := log_entries st @
                [(InfoLevel, ''amq request {topic: %s, message: %s}''),
                 (FatalLevel, ''error while connecting to stomp: %s'')]\<rparr>))"
  using assms by (rule send_dial_fails_any)

text \<open>An instance: the broker refuses the connection, under both loggers.\<close>

theorem C10_witness:
  "fst (sendAlertToStomp log default_config broker_down ''kubernetes'' alert_Foo init_state) =
     Exit 1 \<and>
   fst (sendAlertToStomp \<lparr>ExitFunc = exit_returns\<rparr> default_config broker_down ''kubernetes''
          alert_Foo init_state) = Panic nil_dereference \<and>
   stomp_calls (snd (sendAlertToStomp \<lparr>ExitFunc = exit_returns\<rparr> default_config broker_down
          ''kubernetes'' alert_Foo init_state)) =
     [dial_call default_config, send_call ''kubernetes'' None alert_Foo]"
proof -
  have d: "dial_err (broker_down (conns init_state)) = Some (Error ''dial tcp: connection refused'')"
    by (simp add: example_brokers)
  from C10_connect_error_branch
      [where br = broker_down and st = init_state and lg = log and cfg = default_config
         and topic = "''kubernetes''" and a = alert_Foo, OF d]
    C10_connect_error_branch
      [where br = broker_down and st = init_state and lg = "\<lparr>ExitFunc = exit_returns\<rparr>"
         and cfg = default_config and topic = "''kubernetes''" and a = alert_Foo, OF d]
  show ?thesis
    by (simp add: ExitFunc_log init_state_simps)
qed

text \<open>
  The claim fails under the program's logger: with the broker refusing the connection, the
  dial is the only call made to the STOMP client, and nothing is sent.
\<close>

theorem C10_counterexample:
  "dial_err (broker_down (conns init_state)) \<noteq> None \<and>
   stomp_calls (snd (sendAlertToStomp log default_config broker_down ''kubernetes'' alert_Foo
      init_state)) = [dial_call default_config] \<and>
   sent (stomp_calls (snd (sendAlertToStomp log default_config broker_down ''kubernetes''
      alert_Foo init_state))) = []"
  by (simp add: example_brokers init_state_simps ExitFunc_log dial_call_def
        send_dial_fails_any [where e = "Error ''dial tcp: connection refused''"])

end
